theory Spec2Isabelle
  imports Main
begin

section \<open>The account service: data\<close>

text \<open>
  The service of \<^verbatim>\<open>service/routes.py\<close> maps HTTP requests to operations on Account
  records. The handlers mutate a database through the class \<^verbatim>\<open>Account\<close>; the model
  passes the database along explicitly as a value of type \<open>store\<close>, and every handler
  returns its result together with the store it leaves behind. A raised exception
  (\<^verbatim>\<open>abort\<close>, a validation error) is the \<open>Inl\<close> branch of a sum.
\<close>

subsection \<open>JSON\<close>

text \<open>
  What \<^verbatim>\<open>request.get_json()\<close> returns and what \<^verbatim>\<open>jsonify\<close> takes. A Python dict is
  written as an association list and read through \<open>map_of\<close>.
\<close>

datatype json_value =
    JNull
  | JBool bool
  | JInt int
  | JStr string
  | JList "json_value list"
  | JDict "(string \<times> json_value) list"

fun dict_get :: "json_value \<Rightarrow> string \<Rightarrow> json_value option" where
  "dict_get (JDict kv) k = map_of kv k"
| "dict_get _ k = None"

text \<open>What Python's \<^verbatim>\<open>if value:\<close> does with a decoded value.\<close>

fun truthy :: "json_value \<Rightarrow> bool" where
  "truthy JNull = False"
| "truthy (JBool b) = b"
| "truthy (JInt i) = (i \<noteq> 0)"
| "truthy (JStr s) = (s \<noteq> [])"
| "truthy (JList xs) = (xs \<noteq> [])"
| "truthy (JDict kv) = (kv \<noteq> [])"

subsection \<open>Dates\<close>

text \<open>
  A calendar date (Python's \<^verbatim>\<open>datetime.date\<close>): years 1 to 9999, the months and days
  of the Gregorian calendar.
\<close>

datatype date = Date nat nat nat

definition is_leap :: "nat \<Rightarrow> bool" where
  "is_leap y = (y mod 4 = 0 \<and> (y mod 100 \<noteq> 0 \<or> y mod 400 = 0))"

definition days_in_month :: "nat \<Rightarrow> nat \<Rightarrow> nat" where
  "days_in_month y m =
     (if m = 2 then (if is_leap y then 29 else 28)
      else if m \<in> {4, 6, 9, 11} then 30 else 31)"

fun valid_date :: "date \<Rightarrow> bool" where
  "valid_date (Date y m d) =
     (1 \<le> y \<and> y \<le> 9999 \<and> 1 \<le> m \<and> m \<le> 12 \<and> 1 \<le> d \<and> d \<le> days_in_month y m)"

definition digit_value :: "char \<Rightarrow> nat option" where
  "digit_value c = map_of (zip ''0123456789'' [0, 1, 2, 3, 4, 5, 6, 7, 8, 9]) c"

definition digit_of :: "nat \<Rightarrow> char" where
  "digit_of n = ''0123456789'' ! (n mod 10)"

fun two_digits :: "char \<Rightarrow> char \<Rightarrow> nat option" where
  "two_digits a b =
     (case (digit_value a, digit_value b) of
        (Some x, Some y) \<Rightarrow> Some (10 * x + y)
      | _ \<Rightarrow> None)"

text \<open>
  \<^verbatim>\<open>date.fromisoformat(text)\<close> for the notation \<^verbatim>\<open>YYYY-MM-DD\<close>, the one of section 6 of
  the specification; \<open>None\<close> is the \<^verbatim>\<open>ValueError\<close> of a text that is no such date. The
  other notations of ISO 8601 that recent Python versions also read are not modelled.
\<close>

fun fromisoformat :: "string \<Rightarrow> date option" where
  "fromisoformat [y1, y2, y3, y4, s1, m1, m2, s2, d1, d2] =
     (case (two_digits y1 y2, two_digits y3 y4, two_digits m1 m2, two_digits d1 d2) of
        (Some c, Some y, Some m, Some d) \<Rightarrow>
          if s1 = CHR ''-'' \<and> s2 = CHR ''-'' \<and> valid_date (Date (100 * c + y) m d)
          then Some (Date (100 * c + y) m d) else None
      | _ \<Rightarrow> None)"
| "fromisoformat _ = None"

definition pad2 :: "nat \<Rightarrow> string" where
  "pad2 n = [digit_of (n div 10), digit_of n]"

text \<open>\<^verbatim>\<open>date.isoformat()\<close>: four digits of year, two of month, two of day.\<close>

fun isoformat :: "date \<Rightarrow> string" where
  "isoformat (Date y m d) = pad2 (y div 100) @ pad2 (y mod 100) @ ''-'' @ pad2 m @ ''-'' @ pad2 d"

subsection \<open>Requests, responses, errors\<close>

datatype http_method = GET | HEAD | POST | PUT | DELETE | PATCH | OPTIONS | TRACE

text \<open>
  A URL path is the list of its segments; a segment that is a decimal numeral is given
  by its value (\<^verbatim>\<open>/accounts/7\<close> is \<open>[Str ''accounts'', Num 7]\<close>), which is what the
  converter \<^verbatim>\<open><int:account_id>\<close> hands to the view.
\<close>

datatype segment = Str string | Num nat

text \<open>
  The request as the handlers read it: the method and path used by the URL map, the
  header \<^verbatim>\<open>request.headers.get("Content-Type")\<close>, the JSON value the bytes of the body
  stand for, and the date of the day the request is served (\<^verbatim>\<open>date.today()\<close>). Bodies
  whose bytes are not JSON are outside the model.
\<close>

record request =
  req_method :: http_method
  path :: "segment list"
  content_type :: "string option"
  json_body :: json_value
  today :: date

record response =
  status_code :: nat
  data :: json_value
  headers :: "(string \<times> string) list"

text \<open>
  What a handler can raise: \<^verbatim>\<open>abort(code, description)\<close> and the exceptions of the
  framework (\<open>HTTPException\<close>), the validation error of the record layer, Python's
  \<^verbatim>\<open>ValueError\<close>, and a failure of the store.
\<close>

datatype error =
    HTTPException nat string
  | DataValidationError string
  | ValueError string
  | StoreError

text \<open>
  The constants of \<^verbatim>\<open>service/common/status.py\<close> are used by the handlers, but the file
  is not among the sources. Section 6 of the specification gives the number behind each.
\<close>

text \<open>Modelled from the spec: \<^verbatim>\<open>status.HTTP_200_OK\<close>, the success code 200 of section 6.\<close>

definition HTTP_200_OK :: nat where
  "HTTP_200_OK = 200"

text \<open>Modelled from the spec: \<^verbatim>\<open>status.HTTP_201_CREATED\<close>, the code 201 of a creation.\<close>

definition HTTP_201_CREATED :: nat where
  "HTTP_201_CREATED = 201"

text \<open>Modelled from the spec: \<^verbatim>\<open>status.HTTP_400_BAD_REQUEST\<close>, the bad-request signal 400.\<close>

definition HTTP_400_BAD_REQUEST :: nat where
  "HTTP_400_BAD_REQUEST = 400"

text \<open>Modelled from the spec: \<^verbatim>\<open>status.HTTP_404_NOT_FOUND\<close>, the not-found signal 404.\<close>

definition HTTP_404_NOT_FOUND :: nat where
  "HTTP_404_NOT_FOUND = 404"

text \<open>
  Modelled from the spec: \<^verbatim>\<open>status.HTTP_405_METHOD_NOT_ALLOWED\<close>, the
  method-not-allowed signal 405.
\<close>

definition HTTP_405_METHOD_NOT_ALLOWED :: nat where
  "HTTP_405_METHOD_NOT_ALLOWED = 405"

text \<open>
  Modelled from the spec: \<^verbatim>\<open>status.HTTP_415_UNSUPPORTED_MEDIA_TYPE\<close>, the
  unsupported-media-type signal 415.
\<close>

definition HTTP_415_UNSUPPORTED_MEDIA_TYPE :: nat where
  "HTTP_415_UNSUPPORTED_MEDIA_TYPE = 415"

text \<open>
  Modelled from the spec: \<^verbatim>\<open>status.HTTP_500_INTERNAL_SERVER_ERROR\<close>, the server error
  500 of section 7.
\<close>

definition HTTP_500_INTERNAL_SERVER_ERROR :: nat where
  "HTTP_500_INTERNAL_SERVER_ERROR = 500"

text \<open>
  Modelled from the spec: the error handlers of the application
  (\<^verbatim>\<open>service/common/error_handlers.py\<close>), which are not among the sources. Section 7 of
  the specification: an \<^verbatim>\<open>abort\<close> answers with its own code, a validation error of the
  record layer with 400, and what is not expected (an exception nobody catches, a
  failure of the store) surfaces as the server error 500.
\<close>

fun error_status :: "error \<Rightarrow> nat" where
  "error_status (HTTPException code description) = code"
| "error_status (DataValidationError description) = HTTP_400_BAD_REQUEST"
| "error_status (ValueError description) = HTTP_500_INTERNAL_SERVER_ERROR"
| "error_status StoreError = HTTP_500_INTERNAL_SERVER_ERROR"

fun response_status :: "error + response \<Rightarrow> nat" where
  "response_status (Inl e) = error_status e"
| "response_status (Inr resp) = status_code resp"

section \<open>The record layer\<close>

text \<open>
  The class \<^verbatim>\<open>Account\<close> (\<^verbatim>\<open>service/models.py\<close>) and the database behind it are not
  among the sources. Each definition of this section is written from the specification,
  sections 3 and 4.2, and says which sentence it follows.
\<close>

text \<open>
  Modelled from the spec: the attributes of an Account, section 3. \<open>acct_id\<close> is the
  attribute \<^verbatim>\<open>id\<close>: an integer assigned by the store on creation, absent before.
  \<^verbatim>\<open>name\<close>, \<^verbatim>\<open>email\<close>, \<^verbatim>\<open>address\<close> and \<^verbatim>\<open>phone_number\<close> hold the value the payload
  gave, whatever its JSON type (section 9: the payload is an untyped mapping, checked
  for the presence of keys only); \<^verbatim>\<open>date_joined\<close> is a date.
\<close>

record account =
  acct_id :: "nat option"
  name :: json_value
  email :: json_value
  address :: json_value
  phone_number :: json_value
  date_joined :: date

text \<open>
  Modelled from the spec: \<^verbatim>\<open>Account()\<close> made on a given day, a record that is not yet
  stored: no id, no values, and \<^verbatim>\<open>date_joined\<close> ``defaults to creation date''.
\<close>

definition Account :: "date \<Rightarrow> account" where
  "Account day = \<lparr>acct_id = None, name = JNull, email = JNull, address = JNull,
     phone_number = JNull, date_joined = day\<rparr>"

text \<open>
  Modelled from the spec: the store, section 3 (``\<^verbatim>\<open>id\<close> (integer, unique, assigned by
  the store on creation)''): the rows in insertion order and the next value of the id
  sequence, which starts at 1 and is never handed out twice.
\<close>

record store =
  rows :: "account list"
  next_id :: nat

text \<open>Modelled from the spec: the store before any account was created.\<close>

definition init_store :: store where
  "init_store = \<lparr>rows = [], next_id = 1\<rparr>"

text \<open>
  Modelled from the spec: reading a required key of the payload. Section 4.2:
  deserialization ``fails with a data-validation error when payload is malformed or
  missing required keys''; the value found is taken as it is.
\<close>

fun required_key :: "string \<Rightarrow> (string \<times> json_value) list \<Rightarrow> error + json_value" where
  "required_key k kv =
     (case map_of kv k of
        None \<Rightarrow> Inl (DataValidationError (''Invalid Account: missing '' @ k))
      | Some v \<Rightarrow> Inr v)"

text \<open>
  Modelled from the spec: the date of a payload. \<^verbatim>\<open>date_joined\<close> ``defaults to creation
  date'' when the payload gives none (no key, or a value that is null or empty); a text
  is read as an ISO date, and a text that is no date raises \<^verbatim>\<open>ValueError\<close>, which is
  not one of the two failures section 4.1 names for the 400 (required fields absent,
  payload not a JSON object); a value that is neither empty nor text is malformed.
\<close>

fun joined_date :: "date \<Rightarrow> json_value option \<Rightarrow> error + date" where
  "joined_date day None = Inr day"
| "joined_date day (Some v) =
     (if \<not> truthy v then Inr day
      else (case v of
              JStr isotext \<Rightarrow>
                (case fromisoformat isotext of
                   None \<Rightarrow> Inl (ValueError (''Invalid isoformat string: '' @ isotext))
                 | Some d \<Rightarrow> Inr d)
            | _ \<Rightarrow> Inl (DataValidationError
                       ''Invalid Account: body of request contained bad or no data'')))"

text \<open>
  Modelled from the spec: \<^verbatim>\<open>account.deserialize(payload)\<close>, section 4.2. The payload
  must be a mapping; \<^verbatim>\<open>name\<close>, \<^verbatim>\<open>email\<close> and \<^verbatim>\<open>address\<close> are the required attributes
  of section 3, \<^verbatim>\<open>phone_number\<close> is optional (null when the payload has none),
  \<^verbatim>\<open>date_joined\<close> defaults to the day of the request. The fields are assigned onto the
  record given; its id is left as it was, and a key \<^verbatim>\<open>id\<close> of the payload is not read
  (``must never accept a client-supplied \<^verbatim>\<open>id\<close> override'').
\<close>

definition deserialize :: "account \<Rightarrow> date \<Rightarrow> json_value \<Rightarrow> error + account" where
  "deserialize self day payload =
     (case payload of
        JDict kv \<Rightarrow>
          (case required_key ''name'' kv of
             Inl e \<Rightarrow> Inl e
           | Inr n \<Rightarrow>
          (case required_key ''email'' kv of
             Inl e \<Rightarrow> Inl e
           | Inr m \<Rightarrow>
          (case required_key ''address'' kv of
             Inl e \<Rightarrow> Inl e
           | Inr a \<Rightarrow>
          (case joined_date day (map_of kv ''date_joined'') of
             Inl e \<Rightarrow> Inl e
           | Inr d \<Rightarrow>
               Inr (self\<lparr>name := n, email := m, address := a,
                      phone_number := (case map_of kv ''phone_number'' of
                                         None \<Rightarrow> JNull | Some p \<Rightarrow> p),
                      date_joined := d\<rparr>)))))
      | _ \<Rightarrow> Inl (DataValidationError ''Invalid Account: body of request contained bad or no data''))"

text \<open>
  Modelled from the spec: \<^verbatim>\<open>account.serialize()\<close>, ``a JSON-compatible mapping of all
  fields, with \<^verbatim>\<open>date_joined\<close> rendered as an ISO date string'' (the shape of section 6).
\<close>

definition serialize :: "account \<Rightarrow> json_value" where
  "serialize self = JDict
     [(''id'', case acct_id self of None \<Rightarrow> JNull | Some i \<Rightarrow> JInt (int i)),
      (''name'', name self),
      (''email'', email self),
      (''address'', address self),
      (''phone_number'', phone_number self),
      (''date_joined'', JStr (isoformat (date_joined self)))]"

text \<open>
  Modelled from the spec: \<^verbatim>\<open>account.create()\<close>, ``inserts the in-memory record into
  the store, obtaining a store-assigned \<^verbatim>\<open>id\<close>''. It returns the record as it is after
  the call, and the store. A database that cannot be reached, and what the database
  does with a value that is no text, are outside the model.
\<close>

definition create :: "store \<Rightarrow> account \<Rightarrow> account \<times> store" where
  "create s self =
     (let stored = self\<lparr>acct_id := Some (next_id s)\<rparr>
      in (stored, s\<lparr>rows := rows s @ [stored], next_id := Suc (next_id s)\<rparr>))"

text \<open>
  Modelled from the spec: \<^verbatim>\<open>Account.find(id)\<close>, ``returns the record matching
  \<^verbatim>\<open>id\<close>, or an absent/null result if none exists (never raises for "not found")''.
\<close>

definition find_account :: "store \<Rightarrow> nat \<Rightarrow> account option" where
  "find_account s by_id = List.find (\<lambda>a. acct_id a = Some by_id) (rows s)"

text \<open>
  Modelled from the spec: \<^verbatim>\<open>Account.all()\<close>, ``returns every record currently stored,
  as a sequence'', in insertion order.
\<close>

definition all_accounts :: "store \<Rightarrow> account list" where
  "all_accounts s = rows s"

text \<open>
  Modelled from the spec: \<^verbatim>\<open>account.update()\<close>, ``persists in-place changes to an
  existing record identified by its \<^verbatim>\<open>id\<close>; fails if the record no longer exists''.
\<close>

definition update :: "store \<Rightarrow> account \<Rightarrow> error + store" where
  "update s self =
     (if acct_id self \<noteq> None \<and> acct_id self \<in> set (map acct_id (rows s))
      then Inr (s\<lparr>rows := map (\<lambda>a. if acct_id a = acct_id self then self else a) (rows s)\<rparr>)
      else Inl StoreError)"

section \<open>The handlers of \<^verbatim>\<open>service/routes.py\<close>\<close>

text \<open>
  Each view function takes the store and the request and returns what it returns or
  raises, with the store it leaves. Calls to the logger are left out: they write nothing
  a response or the store depends on.
\<close>

type_synonym result = "(error + response) \<times> store"

text \<open>\<^verbatim>\<open>jsonify(x), code\<close> and \<^verbatim>\<open>make_response(jsonify(x), code, headers)\<close>.\<close>

definition make_response :: "json_value \<Rightarrow> nat \<Rightarrow> (string \<times> string) list \<Rightarrow> response" where
  "make_response body code hs = \<lparr>status_code = code, data = body, headers = hs\<rparr>"

text \<open>
  \<^verbatim>\<open>check_content_type(media_type)\<close>: the header must be set, not empty, and equal to
  the media type; otherwise \<^verbatim>\<open>abort(415, ...)\<close>.
\<close>

definition check_content_type :: "request \<Rightarrow> string \<Rightarrow> error + unit" where
  "check_content_type r media_type =
     (case content_type r of
        Some ct \<Rightarrow>
          if ct \<noteq> [] \<and> ct = media_type then Inr ()
          else Inl (HTTPException HTTP_415_UNSUPPORTED_MEDIA_TYPE
                      (''Content-Type must be '' @ media_type))
      | None \<Rightarrow>
          Inl (HTTPException HTTP_415_UNSUPPORTED_MEDIA_TYPE
                 (''Content-Type must be '' @ media_type)))"

text \<open>
  \<^verbatim>\<open>request.mimetype\<close> of the framework: the header up to its first \<^verbatim>\<open>;\<close>, without
  blanks around it, in lower case; empty when there is no header.
\<close>

definition ascii_lower :: "char \<Rightarrow> char" where
  "ascii_lower c =
     (case map_of (zip ''ABCDEFGHIJKLMNOPQRSTUVWXYZ'' ''abcdefghijklmnopqrstuvwxyz'') c of
        None \<Rightarrow> c
      | Some l \<Rightarrow> l)"

definition strip :: "string \<Rightarrow> string" where
  "strip header =
     rev (dropWhile (\<lambda>c. c = CHR '' '') (rev (dropWhile (\<lambda>c. c = CHR '' '') header)))"

definition mimetype :: "request \<Rightarrow> string" where
  "mimetype r =
     (case content_type r of
        None \<Rightarrow> []
      | Some ct \<Rightarrow> map ascii_lower (strip (takeWhile (\<lambda>c. c \<noteq> CHR '';'') ct)))"

text \<open>
  \<^verbatim>\<open>request.is_json\<close>: the mimetype is \<^verbatim>\<open>application/json\<close>, or starts with
  \<^verbatim>\<open>application/\<close> and ends with \<^verbatim>\<open>+json\<close>.
\<close>

definition is_json :: "request \<Rightarrow> bool" where
  "is_json r =
     (let mt = mimetype r
      in mt = ''application/json'' \<or>
         (take 12 mt = ''application/'' \<and> drop (length mt - 5) mt = ''+json''))"

text \<open>
  What \<^verbatim>\<open>request.get_json()\<close> raises for a request that is not JSON by its header
  (\<^verbatim>\<open>on_json_loading_failed\<close>): the exception \<^verbatim>\<open>UnsupportedMediaType\<close>, code 415, of
  the current releases of the framework. Releases before Werkzeug 2.3 raise
  \<^verbatim>\<open>BadRequest\<close>, code 400, at the same place.
\<close>

definition on_json_loading_failed :: error where
  "on_json_loading_failed =
     HTTPException HTTP_415_UNSUPPORTED_MEDIA_TYPE ''Unsupported Media Type''"

text \<open>
  \<^verbatim>\<open>request.get_json()\<close>, as the handlers call it: the decoded body when the request is
  JSON by its header, the exception above when it is not.
\<close>

definition get_json :: "request \<Rightarrow> error + json_value" where
  "get_json r = (if is_json r then Inr (json_body r) else Inl on_json_loading_failed)"

definition health :: "store \<Rightarrow> request \<Rightarrow> result" where
  "health s r = (Inr (make_response (JDict [(''status'', JStr ''OK'')]) HTTP_200_OK []), s)"

definition index :: "store \<Rightarrow> request \<Rightarrow> result" where
  "index s r =
     (Inr (make_response
        (JDict [(''name'', JStr ''Account REST API Service''), (''version'', JStr ''1.0'')])
        HTTP_200_OK []), s)"

text \<open>
  \<^verbatim>\<open>create_accounts\<close>: content type check, \<^verbatim>\<open>Account()\<close>, \<^verbatim>\<open>request.get_json()\<close>,
  deserialize, create, serialize; the \<^verbatim>\<open>Location\<close> header is the string \<^verbatim>\<open>"/"\<close> of
  line 55.
\<close>

definition create_accounts :: "store \<Rightarrow> request \<Rightarrow> result" where
  "create_accounts s r =
     (case check_content_type r ''application/json'' of
        Inl e \<Rightarrow> (Inl e, s)
      | Inr _ \<Rightarrow>
          (case get_json r of
             Inl e \<Rightarrow> (Inl e, s)
           | Inr payload \<Rightarrow>
          (case deserialize (Account (today r)) (today r) payload of
             Inl e \<Rightarrow> (Inl e, s)
           | Inr account \<Rightarrow>
               (let (account, s') = create s account;
                    message = serialize account;
                    location_url = ''/''
                in (Inr (make_response message HTTP_201_CREATED
                           [(''Location'', location_url)]), s')))))"

definition list_accounts :: "store \<Rightarrow> request \<Rightarrow> result" where
  "list_accounts s r =
     (let account_list = all_accounts s;
          accounts_list = map serialize account_list
      in (Inr (make_response (JList accounts_list) HTTP_200_OK []), s))"

definition get_accounts :: "store \<Rightarrow> request \<Rightarrow> nat \<Rightarrow> result" where
  "get_accounts s r account_id =
     (case find_account s account_id of
        None \<Rightarrow> (Inl (HTTPException HTTP_404_NOT_FOUND ''Account was not found.''), s)
      | Some found \<Rightarrow> (Inr (make_response (serialize found) HTTP_200_OK []), s))"

text \<open>
  \<^verbatim>\<open>update_accounts\<close>: find, 404 when absent, then \<^verbatim>\<open>request.get_json()\<close> (line 119),
  deserialize over the record found, update, serialize. No call of
  \<^verbatim>\<open>check_content_type\<close>.
\<close>

definition update_accounts :: "store \<Rightarrow> request \<Rightarrow> nat \<Rightarrow> result" where
  "update_accounts s r account_id =
     (case find_account s account_id of
        None \<Rightarrow> (Inl (HTTPException HTTP_404_NOT_FOUND ''Account not found''), s)
      | Some found \<Rightarrow>
          (case get_json r of
             Inl e \<Rightarrow> (Inl e, s)
           | Inr payload \<Rightarrow>
          (case deserialize found (today r) payload of
             Inl e \<Rightarrow> (Inl e, s)
           | Inr changed \<Rightarrow>
               (case update s changed of
                  Inl e \<Rightarrow> (Inl e, s)
                | Inr s' \<Rightarrow> (Inr (make_response (serialize changed) HTTP_200_OK []), s')))))"

section \<open>The URL map\<close>

text \<open>
  The decorators \<^verbatim>\<open>@app.route\<close> register six rules, in this order: \<^verbatim>\<open>/health\<close> and
  \<^verbatim>\<open>/\<close> (no \<^verbatim>\<open>methods\<close>, which means GET), \<^verbatim>\<open>/accounts\<close> for POST and for GET, and
  \<^verbatim>\<open>/accounts/<int:account_id>\<close> for GET and for PUT. Nothing is registered for
  DELETE: the section of the file for it holds a comment only.
\<close>

datatype endpoint =
    Health
  | Index
  | Create_accounts
  | List_accounts
  | Get_accounts nat
  | Update_accounts nat

text \<open>The rules whose pattern matches a path, in the order of registration.\<close>

fun url_rules :: "segment list \<Rightarrow> (http_method list \<times> endpoint) list" where
  "url_rules [] = [([GET], Index)]"
| "url_rules [Str a] =
     (if a = ''health'' then [([GET], Health)]
      else if a = ''accounts'' then [([POST], Create_accounts), ([GET], List_accounts)]
      else [])"
| "url_rules [Str a, Num account_id] =
     (if a = ''accounts''
      then [([GET], Get_accounts account_id), ([PUT], Update_accounts account_id)]
      else [])"
| "url_rules _ = []"

text \<open>
  The framework answers a rule's declared methods, HEAD wherever GET is declared, and
  OPTIONS on every rule.
\<close>

definition rule_methods :: "http_method list \<Rightarrow> http_method list" where
  "rule_methods declared = declared @ (if GET \<in> set declared then [HEAD] else []) @ [OPTIONS]"

definition allowed_methods :: "segment list \<Rightarrow> http_method list" where
  "allowed_methods p = concat (map (\<lambda>(declared, ep). rule_methods declared) (url_rules p))"

fun match_method :: "(http_method list \<times> endpoint) list \<Rightarrow> http_method \<Rightarrow> endpoint option" where
  "match_method [] m = None"
| "match_method ((declared, ep) # rules) m =
     (if m \<in> set (rule_methods declared) then Some ep else match_method rules m)"

text \<open>
  Matching a request: no rule for the path is 404; rules for the path but none for the
  method is 405.
\<close>

definition url_match :: "request \<Rightarrow> error + endpoint" where
  "url_match r =
     (case url_rules (path r) of
        [] \<Rightarrow> Inl (HTTPException HTTP_404_NOT_FOUND ''Not Found'')
      | rules \<Rightarrow>
          (case match_method rules (req_method r) of
             None \<Rightarrow> Inl (HTTPException HTTP_405_METHOD_NOT_ALLOWED ''Method Not Allowed'')
           | Some ep \<Rightarrow> Inr ep))"

fun view_function :: "endpoint \<Rightarrow> store \<Rightarrow> request \<Rightarrow> result" where
  "view_function Health s r = health s r"
| "view_function Index s r = index s r"
| "view_function Create_accounts s r = create_accounts s r"
| "view_function List_accounts s r = list_accounts s r"
| "view_function (Get_accounts account_id) s r = get_accounts s r account_id"
| "view_function (Update_accounts account_id) s r = update_accounts s r account_id"

text \<open>
  Serving a request: OPTIONS is answered by the framework itself with the methods of the
  path in an \<^verbatim>\<open>Allow\<close> header; every other matched request runs its view function
  (HEAD runs the view of GET).
\<close>

fun method_name :: "http_method \<Rightarrow> string" where
  "method_name GET = ''GET''"
| "method_name HEAD = ''HEAD''"
| "method_name POST = ''POST''"
| "method_name PUT = ''PUT''"
| "method_name DELETE = ''DELETE''"
| "method_name PATCH = ''PATCH''"
| "method_name OPTIONS = ''OPTIONS''"
| "method_name TRACE = ''TRACE''"

definition make_default_options_response :: "request \<Rightarrow> response" where
  "make_default_options_response r =
     make_response JNull HTTP_200_OK
       [(''Allow'', concat (map (\<lambda>m. method_name m @ '' '') (remdups (allowed_methods (path r)))))]"

definition dispatch_request :: "store \<Rightarrow> request \<Rightarrow> result" where
  "dispatch_request s r =
     (case url_match r of
        Inl e \<Rightarrow> (Inl e, s)
      | Inr ep \<Rightarrow>
          if req_method r = OPTIONS then (Inr (make_default_options_response r), s)
          else view_function ep s r)"

text \<open>
  What a well-formed store looks like: the sequence is positive, every row carries an id
  between 1 and the sequence, and no id is carried twice. The empty store is so, and
  every request keeps it so (\<open>dispatch_request_store_ok\<close>, \<open>served_store_ok\<close>).
\<close>

definition store_ok :: "store \<Rightarrow> bool" where
  "store_ok s =
     (0 < next_id s \<and>
      list_all (\<lambda>a. case acct_id a of None \<Rightarrow> False | Some i \<Rightarrow> 0 < i \<and> i < next_id s) (rows s) \<and>
      distinct (map acct_id (rows s)))"

subsection \<open>Sample requests\<close>

text \<open>
  A complete payload posted as JSON on the first of May 2024, and the store that holds
  the one account it creates.
\<close>

definition example_payload :: json_value where
  "example_payload = JDict
     [(''name'', JStr ''Ann Lee''), (''email'', JStr ''ann@example.org''),
      (''address'', JStr ''1 Main St''), (''phone_number'', JStr ''555-0100''),
      (''date_joined'', JStr ''2024-01-15'')]"

definition example_post :: request where
  "example_post = \<lparr>req_method = POST, path = [Str ''accounts''],
     content_type = Some ''application/json'', json_body = example_payload,
     today = Date 2024 5 1\<rparr>"


definition example_account :: account where
  "example_account = \<lparr>acct_id = Some 1, name = JStr ''Ann Lee'',
     email = JStr ''ann@example.org'', address = JStr ''1 Main St'',
     phone_number = JStr ''555-0100'', date_joined = Date 2024 1 15\<rparr>"

definition example_store :: store where
  "example_store = \<lparr>rows = [example_account], next_id = 2\<rparr>"

section \<open>Routing and invariant lemmas\<close>


lemma dispatch_health:
  "req_method r = GET \<Longrightarrow> path r = [Str ''health''] \<Longrightarrow> dispatch_request s r = health s r"
  by (simp add: dispatch_request_def url_match_def rule_methods_def)

lemma dispatch_index:
  "req_method r = GET \<Longrightarrow> path r = [] \<Longrightarrow> dispatch_request s r = index s r"
  by (simp add: dispatch_request_def url_match_def rule_methods_def)

lemma dispatch_create_accounts:
  "req_method r = POST \<Longrightarrow> path r = [Str ''accounts''] \<Longrightarrow> dispatch_request s r = create_accounts s r"
  by (simp add: dispatch_request_def url_match_def rule_methods_def)

lemma dispatch_list_accounts:
  "req_method r = GET \<Longrightarrow> path r = [Str ''accounts''] \<Longrightarrow> dispatch_request s r = list_accounts s r"
  by (simp add: dispatch_request_def url_match_def rule_methods_def)

lemma dispatch_get_accounts:
  "req_method r = GET \<Longrightarrow> path r = [Str ''accounts'', Num i] \<Longrightarrow> dispatch_request s r = get_accounts s r i"
  by (simp add: dispatch_request_def url_match_def rule_methods_def)


lemma check_content_type_ok:
  "check_content_type r ''application/json'' = Inr () \<longleftrightarrow> content_type r = Some ''application/json''"
  by (auto simp: check_content_type_def split: option.splits)

lemma check_content_type_415:
  "content_type r \<noteq> Some ''application/json'' \<Longrightarrow>
   check_content_type r ''application/json'' =
     Inl (HTTPException HTTP_415_UNSUPPORTED_MEDIA_TYPE ''Content-Type must be application/json'')"
  by (auto simp: check_content_type_def split: option.splits)

lemma health_store: "snd (health s r) = s"
  by (simp add: health_def)
lemma index_store: "snd (index s r) = s"
  by (simp add: index_def)
lemma list_accounts_store: "snd (list_accounts s r) = s"
  by (simp add: list_accounts_def)
lemma get_accounts_store: "snd (get_accounts s r i) = s"
  by (simp add: get_accounts_def split: option.splits)

lemma match_method_None:
  "match_method rules m = None \<longleftrightarrow> m \<notin> set (concat (map (\<lambda>(declared, ep). rule_methods declared) rules))"
  by (induction rules) (auto split: if_splits)

lemma dispatch_get_store: "req_method r = GET \<Longrightarrow> snd (dispatch_request s r) = s"
  apply (cases "url_match r")
   apply (simp add: dispatch_request_def)
  subgoal for ep
    by (cases ep) (auto simp: dispatch_request_def health_store index_store list_accounts_store get_accounts_store
        url_match_def rule_methods_def split: list.splits option.splits if_splits elim!: url_rules.elims)
  done


lemma find_account_None:
  "find_account s i = None \<longleftrightarrow> (\<forall>a\<in>set (rows s). acct_id a \<noteq> Some i)"
  by (auto simp: find_account_def find_None_iff)

lemma find_account_SomeD:
  "find_account s i = Some a \<Longrightarrow> a \<in> set (rows s) \<and> acct_id a = Some i"
  by (auto simp: find_account_def find_Some_iff)

lemma find_distinct:
  "distinct (map f xs) \<Longrightarrow> a \<in> set xs \<Longrightarrow> f a = v \<Longrightarrow> List.find (\<lambda>x. f x = v) xs = Some a"
  by (induction xs) (auto simp: image_iff)

lemma store_ok_init: "store_ok init_store"
  by (simp add: store_ok_def init_store_def)

lemma create_store_ok: "store_ok s \<Longrightarrow> store_ok (snd (create s a))"
  by (auto simp: store_ok_def create_def Let_def list_all_iff image_iff split: option.splits)

lemma update_rows_ids:
  "map acct_id (map (\<lambda>a. if acct_id a = acct_id self then self else a) xs) = map acct_id xs"
  by (induction xs) auto

lemma update_store_ok: "store_ok s \<Longrightarrow> update s a = Inr s' \<Longrightarrow> store_ok s'"
proof -
  assume ok: "store_ok s" and u: "update s a = Inr s'"
  from u have s': "s' = s\<lparr>rows := map (\<lambda>b. if acct_id b = acct_id a then a else b) (rows s)\<rparr>"
    and mem: "acct_id a \<in> set (map acct_id (rows s))"
    by (auto simp: update_def split: if_splits)
  have ids: "map acct_id (rows s') = map acct_id (rows s)"
    by (simp add: s' update_rows_ids)
  have nid: "next_id s' = next_id s"
    by (simp add: s')
  have "\<forall>v\<in>set (map acct_id (rows s)). case v of None \<Rightarrow> False | Some i \<Rightarrow> 0 < i \<and> i < next_id s"
    using ok by (simp add: store_ok_def list_all_iff)
  then have "\<forall>v\<in>set (map acct_id (rows s')). case v of None \<Rightarrow> False | Some i \<Rightarrow> 0 < i \<and> i < next_id s'"
    by (simp only: ids nid)
  then have "list_all (\<lambda>a. case acct_id a of None \<Rightarrow> False | Some i \<Rightarrow> 0 < i \<and> i < next_id s') (rows s')"
    by (simp add: list_all_iff)
  moreover have "distinct (map acct_id (rows s'))"
    using ok by (simp only: ids) (simp add: store_ok_def)
  moreover have "0 < next_id s'"
    using ok by (simp add: nid store_ok_def)
  ultimately show ?thesis
    by (simp add: store_ok_def)
qed

lemma create_accounts_store_ok: "store_ok s \<Longrightarrow> store_ok (snd (create_accounts s r))"
  using create_store_ok
  by (auto simp: create_accounts_def Let_def split: sum.splits prod.splits) (metis snd_conv)

lemma update_accounts_store_ok: "store_ok s \<Longrightarrow> store_ok (snd (update_accounts s r i))"
  by (auto simp: update_accounts_def split: sum.splits option.splits dest: update_store_ok)

lemma view_function_store_ok: "store_ok s \<Longrightarrow> store_ok (snd (view_function ep s r))"
  by (cases ep) (simp_all add: health_store index_store list_accounts_store get_accounts_store
      create_accounts_store_ok update_accounts_store_ok)

lemma dispatch_request_store_ok: "store_ok s \<Longrightarrow> store_ok (snd (dispatch_request s r))"
  by (simp add: dispatch_request_def view_function_store_ok split: sum.splits)

lemma served_store_ok:
  "store_ok (foldl (\<lambda>s r. snd (dispatch_request s r)) init_store requests)"
proof -
  have "store_ok s \<Longrightarrow> store_ok (foldl (\<lambda>s r. snd (dispatch_request s r)) s requests)" for s
    by (induction requests arbitrary: s) (simp_all add: dispatch_request_store_ok)
  then show ?thesis
    by (simp add: store_ok_init)
qed

subsection \<open>Dates and content types\<close>





lemma is_json_application_json: "content_type r = Some ''application/json'' \<Longrightarrow> is_json r"
  by (simp add: is_json_def mimetype_def strip_def ascii_lower_def)

lemma get_json_application_json:
  "content_type r = Some ''application/json'' \<Longrightarrow> get_json r = Inr (json_body r)"
  by (simp add: get_json_def is_json_application_json)

lemma check_content_type_is_json: "check_content_type r ''application/json'' = Inr u \<Longrightarrow> is_json r"
  by (rule is_json_application_json) (auto simp: check_content_type_def split: option.splits if_splits)

lemmas example_defs = example_payload_def example_post_def example_account_def example_store_def

lemmas date_defs = digit_value_def days_in_month_def is_leap_def pad2_def digit_of_def

lemma example_store_created: "dispatch_request init_store example_post =
  (Inr (make_response (serialize example_account) HTTP_201_CREATED [(''Location'', ''/'')]), example_store)"
proof -
  have "get_json example_post = Inr example_payload"
    by (simp add: get_json_application_json example_post_def)
  moreover have "deserialize (Account (Date 2024 5 1)) (Date 2024 5 1) example_payload =
      Inr (example_account\<lparr>acct_id := None\<rparr>)"
    by (simp add: deserialize_def example_payload_def example_account_def Account_def date_defs)
  ultimately show ?thesis
    by (simp add: dispatch_create_accounts create_accounts_def check_content_type_def
        example_post_def create_def Let_def init_store_def example_store_def example_account_def)
qed

subsection \<open>Deserialization and update\<close>





lemma deserialize_missing:
  "dict_get payload ''name'' = None \<or> dict_get payload ''email'' = None \<Longrightarrow>
   \<exists>msg. deserialize self day payload = Inl (DataValidationError msg)"
  by (cases payload) (auto simp: deserialize_def split: sum.splits option.splits)







section \<open>Properties of the handlers\<close>







text \<open>
  Claim C3 asks for a \<^verbatim>\<open>Location\<close> header naming \<^verbatim>\<open>/accounts/{id}\<close> of the new
  account. The handler sends the string \<^verbatim>\<open>"/"\<close>: posting the sample payload to the
  empty store creates account 1 and answers 201 with \<^verbatim>\<open>Location: /\<close>.
\<close>

theorem create_accounts_location:
  "dispatch_request init_store example_post =
     (Inr \<lparr>status_code = 201, data = serialize example_account,
           headers = [(''Location'', ''/'')]\<rparr>, example_store) \<and>
   dict_get (serialize example_account) ''id'' = Some (JInt 1) \<and>
   find_account example_store 1 = Some example_account"
  by (simp add: example_store_created make_response_def HTTP_201_CREATED_def serialize_def
      find_account_def example_store_def example_account_def)

text \<open>
  Claim C4. A POST to \<^verbatim>\<open>/accounts\<close> with \<^verbatim>\<open>Content-Type\<close> \<^verbatim>\<open>application/json\<close> whose
  payload is not a mapping, or lacks \<^verbatim>\<open>name\<close>, or lacks \<^verbatim>\<open>email\<close>, is answered with 400;
  the store is unchanged, so the list of accounts is what it was.
\<close>

theorem create_accounts_bad_request:
  assumes "req_method r = POST" and "path r = [Str ''accounts'']"
    and "content_type r = Some ''application/json''"
    and "(\<forall>kv. json_body r \<noteq> JDict kv) \<or> dict_get (json_body r) ''name'' = None \<or>
         dict_get (json_body r) ''email'' = None"
  shows "response_status (fst (dispatch_request s r)) = 400 \<and>
         snd (dispatch_request s r) = s \<and>
         fst (list_accounts (snd (dispatch_request s r)) q) = fst (list_accounts s q)"
proof -
  have "dict_get (json_body r) ''name'' = None \<or> dict_get (json_body r) ''email'' = None"
    using assms(4) by (cases "json_body r") auto
  then obtain msg where e: "deserialize (Account (today r)) (today r) (json_body r) =
      Inl (DataValidationError msg)"
    using deserialize_missing by blast
  have c: "check_content_type r ''application/json'' = Inr ()"
    using assms(3) by (simp add: check_content_type_ok)
  have g: "get_json r = Inr (json_body r)"
    using assms(3) by (rule get_json_application_json)
  have "dispatch_request s r = (Inl (DataValidationError msg), s)"
    using assms(1,2) by (simp add: dispatch_create_accounts create_accounts_def c g e)
  then show ?thesis
    by (simp add: HTTP_400_BAD_REQUEST_def)
qed

theorem create_accounts_bad_request_witness:
  "response_status (fst (dispatch_request example_store
      (example_post\<lparr>json_body := JDict [(''name'', JStr ''not enough data'')]\<rparr>))) = 400 \<and>
   snd (dispatch_request example_store
      (example_post\<lparr>json_body := JDict [(''name'', JStr ''not enough data'')]\<rparr>)) = example_store \<and>
   response_status (fst (dispatch_request example_store
      (example_post\<lparr>json_body := JList []\<rparr>))) = 400"
proof -
  have h1: "req_method (example_post\<lparr>json_body := j\<rparr>) = POST" for j
    by (simp add: example_post_def)
  have h2: "path (example_post\<lparr>json_body := j\<rparr>) = [Str ''accounts'']" for j
    by (simp add: example_post_def)
  have h3: "content_type (example_post\<lparr>json_body := j\<rparr>) = Some ''application/json''" for j
    by (simp add: example_post_def)
  let ?a = "example_post\<lparr>json_body := JDict [(''name'', JStr ''not enough data'')]\<rparr>"
  let ?b = "example_post\<lparr>json_body := JList []\<rparr>"
  have h4: "(\<forall>kv. json_body ?a \<noteq> JDict kv) \<or> dict_get (json_body ?a) ''name'' = None \<or>
         dict_get (json_body ?a) ''email'' = None"
    by simp
  have h5: "(\<forall>kv. json_body ?b \<noteq> JDict kv) \<or> dict_get (json_body ?b) ''name'' = None \<or>
         dict_get (json_body ?b) ''email'' = None"
    by simp
  show ?thesis
    using create_accounts_bad_request [OF h1 h2 h3 h4, of example_store]
      create_accounts_bad_request [OF h1 h2 h3 h5, of example_store]
    by simp
qed

text \<open>
  Claim C5. A POST to \<^verbatim>\<open>/accounts\<close> whose \<^verbatim>\<open>Content-Type\<close> header is absent or is not
  exactly \<^verbatim>\<open>application/json\<close> is answered with 415 and leaves the store as it was,
  whatever the body is.
\<close>

theorem create_accounts_unsupported_media_type:
  assumes "req_method r = POST" and "path r = [Str ''accounts'']"
    and "content_type r \<noteq> Some ''application/json''"
  shows "dispatch_request s r =
           (Inl (HTTPException HTTP_415_UNSUPPORTED_MEDIA_TYPE
                   ''Content-Type must be application/json''), s) \<and>
         response_status (fst (dispatch_request s r)) = 415"
proof -
  have "create_accounts s r =
      (Inl (HTTPException HTTP_415_UNSUPPORTED_MEDIA_TYPE ''Content-Type must be application/json''), s)"
    using assms(3) by (simp add: create_accounts_def check_content_type_415)
  then show ?thesis
    using assms(1,2) by (simp add: dispatch_create_accounts HTTP_415_UNSUPPORTED_MEDIA_TYPE_def)
qed

theorem create_accounts_unsupported_media_type_witness:
  "dispatch_request example_store (example_post\<lparr>content_type := Some ''test/html''\<rparr>) =
     (Inl (HTTPException 415 ''Content-Type must be application/json''), example_store) \<and>
   response_status (fst (dispatch_request example_store (example_post\<lparr>content_type := None\<rparr>))) = 415"
proof -
  have m: "req_method (example_post\<lparr>content_type := c\<rparr>) = POST" for c
    by (simp add: example_post_def)
  have p: "path (example_post\<lparr>content_type := c\<rparr>) = [Str ''accounts'']" for c
    by (simp add: example_post_def)
  have c1: "content_type (example_post\<lparr>content_type := Some ''test/html''\<rparr>) \<noteq> Some ''application/json''"
    by simp
  have c2: "content_type (example_post\<lparr>content_type := None\<rparr>) \<noteq> Some ''application/json''"
    by simp
  show ?thesis
    using create_accounts_unsupported_media_type [OF m p c1, of example_store]
      create_accounts_unsupported_media_type [OF m p c2, of example_store]
    by (simp add: HTTP_415_UNSUPPORTED_MEDIA_TYPE_def)
qed

text \<open>
  Claim C6. GET on \<^verbatim>\<open>/accounts/{id}\<close> answers 200 with the serialized record when a
  record with that id is stored, and 404 when none is; in that case the lookup returns
  the absent value and it is the handler that aborts.
\<close>

theorem get_accounts_200_or_404:
  assumes "req_method r = GET" and "path r = [Str ''accounts'', Num i]"
  shows "((\<exists>a\<in>set (rows s). acct_id a = Some i) \<longrightarrow>
            (\<exists>a\<in>set (rows s). acct_id a = Some i \<and>
               dispatch_request s r = (Inr (make_response (serialize a) HTTP_200_OK []), s))) \<and>
         ((\<forall>a\<in>set (rows s). acct_id a \<noteq> Some i) \<longrightarrow>
            find_account s i = None \<and>
            dispatch_request s r =
              (Inl (HTTPException HTTP_404_NOT_FOUND ''Account was not found.''), s))"
proof (intro conjI impI)
  assume "\<exists>a\<in>set (rows s). acct_id a = Some i"
  then obtain b where b: "find_account s i = Some b"
    using find_account_None [of s i] by (cases "find_account s i") auto
  then have "b \<in> set (rows s)" "acct_id b = Some i"
    by (auto dest: find_account_SomeD)
  moreover have "dispatch_request s r = (Inr (make_response (serialize b) HTTP_200_OK []), s)"
    using assms b by (simp add: dispatch_get_accounts get_accounts_def)
  ultimately show "\<exists>a\<in>set (rows s). acct_id a = Some i \<and>
      dispatch_request s r = (Inr (make_response (serialize a) HTTP_200_OK []), s)"
    by blast
next
  assume none: "\<forall>a\<in>set (rows s). acct_id a \<noteq> Some i"
  then show "find_account s i = None"
    by (simp add: find_account_None)
  then show "dispatch_request s r =
      (Inl (HTTPException HTTP_404_NOT_FOUND ''Account was not found.''), s)"
    using assms by (simp add: dispatch_get_accounts get_accounts_def)
qed

theorem get_accounts_200_or_404_witness:
  "dispatch_request example_store (example_post\<lparr>req_method := GET, path := [Str ''accounts'', Num 1]\<rparr>) =
     (Inr (make_response (serialize example_account) 200 []), example_store) \<and>
   dispatch_request example_store (example_post\<lparr>req_method := GET, path := [Str ''accounts'', Num 0]\<rparr>) =
     (Inl (HTTPException 404 ''Account was not found.''), example_store)"
proof -
  have m: "req_method (example_post\<lparr>req_method := GET, path := [Str ''accounts'', Num k]\<rparr>) = GET" for k
    by simp
  have p: "path (example_post\<lparr>req_method := GET, path := [Str ''accounts'', Num k]\<rparr>) = [Str ''accounts'', Num k]" for k
    by simp
  have e1: "\<exists>a\<in>set (rows example_store). acct_id a = Some 1"
    by (simp add: example_store_def example_account_def)
  have e0: "\<forall>a\<in>set (rows example_store). acct_id a \<noteq> Some 0"
    by (simp add: example_store_def example_account_def)
  show ?thesis
    using get_accounts_200_or_404 [OF m p, where i = 1 and s = example_store]
      get_accounts_200_or_404 [OF m p, where i = 0 and s = example_store] e1 e0
    by (simp add: example_store_def HTTP_200_OK_def HTTP_404_NOT_FOUND_def)
qed

text \<open>
  Claim C7 asks that DELETE on \<^verbatim>\<open>/accounts/{id}\<close> of a stored account removes it, so
  that a GET of the same id answers 404. No view is registered for DELETE: on the store
  holding account 1, DELETE on \<^verbatim>\<open>/accounts/1\<close> is answered with 405, the store still
  holds the account, and GET on \<^verbatim>\<open>/accounts/1\<close> answers 200 with it.
\<close>

theorem delete_accounts_missing:
  "dispatch_request example_store
     (example_post\<lparr>req_method := DELETE, path := [Str ''accounts'', Num 1]\<rparr>) =
     (Inl (HTTPException 405 ''Method Not Allowed''), example_store) \<and>
   find_account example_store 1 = Some example_account \<and>
   dispatch_request example_store
     (example_post\<lparr>req_method := GET, path := [Str ''accounts'', Num 1]\<rparr>) =
     (Inr \<lparr>status_code = 200, data = serialize example_account, headers = []\<rparr>, example_store)"
  by (simp add: dispatch_request_def url_match_def rule_methods_def get_accounts_def
      find_account_def example_store_def example_account_def make_response_def
      HTTP_405_METHOD_NOT_ALLOWED_def HTTP_200_OK_def)

text \<open>
  Claim C8. A request whose path has a rule but whose method is none of the methods
  answered on that path (such as DELETE on \<^verbatim>\<open>/accounts\<close>) is answered with 405, and
  the store is unchanged.
\<close>

theorem unmapped_method_405:
  assumes "url_rules (path r) \<noteq> []" and "req_method r \<notin> set (allowed_methods (path r))"
  shows "dispatch_request s r =
           (Inl (HTTPException HTTP_405_METHOD_NOT_ALLOWED ''Method Not Allowed''), s) \<and>
         response_status (fst (dispatch_request s r)) = 405"
proof -
  have "match_method (url_rules (path r)) (req_method r) = None"
    using assms(2) by (simp add: match_method_None allowed_methods_def)
  moreover obtain rule rules where "url_rules (path r) = rule # rules"
    using assms(1) by (cases "url_rules (path r)") auto
  ultimately have "url_match r = Inl (HTTPException HTTP_405_METHOD_NOT_ALLOWED ''Method Not Allowed'')"
    by (simp add: url_match_def)
  then show ?thesis
    by (simp add: dispatch_request_def HTTP_405_METHOD_NOT_ALLOWED_def)
qed

theorem unmapped_method_405_witness:
  "dispatch_request example_store (example_post\<lparr>req_method := DELETE\<rparr>) =
     (Inl (HTTPException 405 ''Method Not Allowed''), example_store)"
proof -
  have a: "url_rules (path (example_post\<lparr>req_method := DELETE\<rparr>)) \<noteq> []"
    by (simp add: example_post_def)
  have b: "req_method (example_post\<lparr>req_method := DELETE\<rparr>) \<notin> set (allowed_methods (path (example_post\<lparr>req_method := DELETE\<rparr>)))"
    by (simp add: example_post_def allowed_methods_def rule_methods_def)
  show ?thesis
    using unmapped_method_405 [OF a b, of example_store]
    by (simp add: HTTP_405_METHOD_NOT_ALLOWED_def)
qed

text \<open>
  Claim C9. The read handlers \<^verbatim>\<open>health\<close>, \<^verbatim>\<open>index\<close>, \<^verbatim>\<open>list_accounts\<close> and
  \<^verbatim>\<open>get_accounts\<close> return the store they were given, and so does every GET request
  served through the URL map.
\<close>

theorem read_handlers_keep_store:
  "snd (health s r) = s \<and> snd (index s r) = s \<and> snd (list_accounts s r) = s \<and>
   snd (get_accounts s r i) = s \<and>
   (req_method r = GET \<longrightarrow> snd (dispatch_request s r) = s)"
  by (simp add: health_store index_store list_accounts_store get_accounts_store dispatch_get_store)

theorem read_handlers_keep_store_witness:
  "snd (dispatch_request example_store (example_post\<lparr>req_method := GET\<rparr>)) = example_store \<and>
   snd (dispatch_request example_store (example_post\<lparr>req_method := GET, path := [Str ''accounts'', Num 1]\<rparr>)) = example_store \<and>
   snd (dispatch_request example_store (example_post\<lparr>req_method := GET, path := [Str ''health'']\<rparr>)) = example_store \<and>
   snd (dispatch_request example_store (example_post\<lparr>req_method := GET, path := []\<rparr>)) = example_store"
  using read_handlers_keep_store [of example_store "example_post\<lparr>req_method := GET\<rparr>"]
    read_handlers_keep_store [of example_store "example_post\<lparr>req_method := GET, path := [Str ''accounts'', Num 1]\<rparr>"]
    read_handlers_keep_store [of example_store "example_post\<lparr>req_method := GET, path := [Str ''health'']\<rparr>"]
    read_handlers_keep_store [of example_store "example_post\<lparr>req_method := GET, path := []\<rparr>"]
  by simp




end
